theory Spec2Isabelle
  imports Complex_Main
begin

section \<open>ImageGrid: placing 2D points on a regular grid\<close>

text \<open>
  A shallow embedding of \<^verbatim>\<open>orangecontrib/prototypes/image_grid.py\<close> (class
  \<^verbatim>\<open>ImageGrid\<close>). The class keeps its results in attributes, so the model passes the
  object explicitly as a record; a Python exception is a value of the type \<open>error\<close>.

  Conventions of the model.
  \<^item> NumPy's float64 arrays of coordinates and costs are lists of \<open>real\<close>: rounding is
    not modelled there. Where it decides a result, the rescaling of a lattice coordinate,
    the float64 value is computed separately (\<open>fl64\<close>). The quantities the grid sizer
    reads from a float (\<open>kurt * 2\<close>, \<open>ceil\<close>, \<open>abs\<close>) are exact in IEEE arithmetic,
    and the type \<open>float64\<close> below keeps the non-finite values apart.
  \<^item> Functions of other packages are parameters of the model: \<open>kurtosis\<close>
    (\<^verbatim>\<open>scipy.stats.kurtosis\<close>) and \<open>lapjv\<close> (\<^verbatim>\<open>lap.lapjv\<close> called with
    \<^verbatim>\<open>extend_cost=True\<close>). The array constructors of NumPy and \<^verbatim>\<open>cdist\<close> are written
    out as list functions.
  \<^item> The leading underscore of the private methods is dropped from the names.
\<close>

subsection \<open>Errors and values\<close>

datatype error =
    AssertionError
  | ValueError
  | IndexError

datatype float64 = Finite real | PosInf | NegInf | NaN

type_synonym point = "real \<times> real"

type_synonym kurtosis_fn = "point list \<Rightarrow> float64 \<times> float64"

text \<open>
  \<^verbatim>\<open>lapjv(cost_matrix, extend_cost=True)\<close> returns the cost, for each row (grid cell) its
  column (data point) or -1, and for each column its row.
\<close>

type_synonym solver = "real list list \<Rightarrow> error + (real \<times> int list \<times> int list)"

record 'a image_grid =
  size_x :: int
  size_y :: int
  cost :: real
  grid_indices :: "int list"
  assignments :: "point list"
  image_list :: "'a option list"
  data :: "'a list"
  norm_data :: "point list"

text \<open>
  \<^verbatim>\<open>__init__\<close>: the results start empty; \<open>project\<close> stands for the reduction to two
  dimensions followed by the normalisation (both done by Orange).
\<close>

definition init :: "('a list \<Rightarrow> point list) \<Rightarrow> 'a list \<Rightarrow> 'a image_grid" where
  "init project d =
     \<lparr>size_x = 0, size_y = 0, cost = 0, grid_indices = [], assignments = [],
      image_list = [], data = d, norm_data = project d\<rparr>"

subsection \<open>Float operations of the grid sizer\<close>

fun f_mul2 :: "float64 \<Rightarrow> float64" where
  "f_mul2 (Finite r) = Finite (r * 2)"
| "f_mul2 PosInf = PosInf"
| "f_mul2 NegInf = NegInf"
| "f_mul2 NaN = NaN"

fun f_ceil :: "float64 \<Rightarrow> float64" where
  "f_ceil (Finite r) = Finite (of_int \<lceil>r\<rceil>)"
| "f_ceil PosInf = PosInf"
| "f_ceil NegInf = NegInf"
| "f_ceil NaN = NaN"

fun f_abs :: "float64 \<Rightarrow> float64" where
  "f_abs (Finite r) = Finite \<bar>r\<bar>"
| "f_abs PosInf = PosInf"
| "f_abs NegInf = PosInf"
| "f_abs NaN = NaN"

text \<open>
  \<^verbatim>\<open>np.int32(v)\<close> on a float: truncation toward zero where the result fits. The
  conversion never raises. For NaN, an infinity or a value outside the 32-bit range the
  result is the one of the x86-64 conversion instruction, \<open>- 2 ^ 31\<close> (the smallest
  \<^verbatim>\<open>int32\<close>).
\<close>

definition trunc :: "real \<Rightarrow> int" where
  "trunc r = (if 0 \<le> r then \<lfloor>r\<rfloor> else \<lceil>r\<rceil>)"

fun to_int32 :: "float64 \<Rightarrow> int" where
  "to_int32 (Finite r) =
     (if - (2 ^ 31) \<le> trunc r \<and> trunc r < 2 ^ 31 then trunc r else - (2 ^ 31))"
| "to_int32 PosInf = - (2 ^ 31)"
| "to_int32 NegInf = - (2 ^ 31)"
| "to_int32 NaN = - (2 ^ 31)"

text \<open>\<^verbatim>\<open>np.int32(np.abs(np.ceil(kurt * 2)))\<close>, for one axis.\<close>

definition kurt_bias :: "float64 \<Rightarrow> int" where
  "kurt_bias k = to_int32 (f_abs (f_ceil (f_mul2 k)))"

text \<open>The bias as the specification words it: the ceiling of twice the absolute value.\<close>

definition spec_bias :: "real \<Rightarrow> int" where
  "spec_bias k = \<lceil>\<bar>k\<bar> * 2\<rceil>"

text \<open>The values whose conversion to \<^verbatim>\<open>int32\<close> is the value itself.\<close>

fun bias_defined :: "float64 \<Rightarrow> bool" where
  "bias_defined (Finite r) = (\<bar>\<lceil>r * 2\<rceil>\<bar> < 2 ^ 31)"
| "bias_defined PosInf = False"
| "bias_defined NegInf = False"
| "bias_defined NaN = False"

subsection \<open>The grid sizer\<close>

text \<open>
  \<^verbatim>\<open>int(np.ceil(np.sqrt(len(data))))\<close>. The square root of a length is taken in the
  reals; the rounded float64 root has the same ceiling for every length below \<open>2^52\<close>.
\<close>

definition sqr_size :: "nat \<Rightarrow> int" where
  "sqr_size n = \<lceil>sqrt (real n)\<rceil>"

text \<open>
  \<^verbatim>\<open>_get_grid_size(data, use_default_square)\<close>. The sums \<^verbatim>\<open>size_x += kurt_x\<close> are
  taken in \<open>int\<close>: a 32-bit bias added to the square root of a list length does not
  leave the 64-bit range.
\<close>

definition get_grid_size :: "kurtosis_fn \<Rightarrow> point list \<Rightarrow> bool \<Rightarrow> int \<times> int" where
  "get_grid_size kurtosis d use_default_square =
     (let sqr = sqr_size (length d) in
      if \<not> use_default_square then
        (case kurtosis d of (kx, ky) \<Rightarrow>
          (let kurt_x = kurt_bias kx; kurt_y = kurt_bias ky
           in (sqr + kurt_x, sqr + kurt_y)))
      else (sqr, sqr))"

subsection \<open>The assignment solver\<close>

text \<open>\<^verbatim>\<open>np.linspace(0, 1, num, endpoint=False)\<close>: a negative \<open>num\<close> raises ValueError.\<close>

definition linspace :: "int \<Rightarrow> error + real list" where
  "linspace num =
     (if num < 0 then Inl ValueError
      else Inr (map (\<lambda>i. real i / real_of_int num) [0..<nat num]))"

text \<open>
  \<^verbatim>\<open>np.dstack(np.meshgrid(xs, ys)).reshape(-1, 2)\<close>: \<^verbatim>\<open>meshgrid\<close> (indexing \<^verbatim>\<open>xy\<close>) has
  one row for each element of \<open>ys\<close> and one column for each element of \<open>xs\<close>; the
  reshape lists the pairs row by row.
\<close>

definition meshgrid_points :: "real list \<Rightarrow> real list \<Rightarrow> point list" where
  "meshgrid_points xs ys = concat (map (\<lambda>y. map (\<lambda>x. (x, y)) xs) ys)"

definition make_grid :: "int \<Rightarrow> int \<Rightarrow> error + point list" where
  "make_grid sx sy =
     (case linspace sx of
        Inl e \<Rightarrow> Inl e
      | Inr xs \<Rightarrow>
         (case linspace sy of
            Inl e \<Rightarrow> Inl e
          | Inr ys \<Rightarrow> Inr (meshgrid_points xs ys)))"

definition sqeuclidean :: "point \<Rightarrow> point \<Rightarrow> real" where
  "sqeuclidean p q = (fst p - fst q)\<^sup>2 + (snd p - snd q)\<^sup>2"

text \<open>\<^verbatim>\<open>cdist(grid, data, "sqeuclidean")\<close>: one row for each grid cell.\<close>

definition cdist :: "point list \<Rightarrow> point list \<Rightarrow> real list list" where
  "cdist grid d = map (\<lambda>g. map (\<lambda>p. sqeuclidean g p) d) grid"

text \<open>Indexing a sequence with an integer: negative indices count from the end.\<close>

definition py_index :: "'b list \<Rightarrow> int \<Rightarrow> error + 'b" where
  "py_index xs i =
     (if 0 \<le> i \<and> i < int (length xs) then Inr (xs ! nat i)
      else if - int (length xs) \<le> i \<and> i < 0 then Inr (xs ! nat (int (length xs) + i))
      else Inl IndexError)"

text \<open>A list comprehension whose element expression may raise.\<close>

fun map_err :: "('b \<Rightarrow> error + 'c) \<Rightarrow> 'b list \<Rightarrow> error + 'c list" where
  "map_err f [] = Inr []"
| "map_err f (x # xs) =
     (case f x of
        Inl e \<Rightarrow> Inl e
      | Inr y \<Rightarrow> (case map_err f xs of Inl e \<Rightarrow> Inl e | Inr ys \<Rightarrow> Inr (y # ys)))"

text \<open>\<^verbatim>\<open>_get_assignments(self, data)\<close>\<close>

definition get_assignments ::
  "solver \<Rightarrow> 'a image_grid \<Rightarrow> point list \<Rightarrow> error + (real \<times> int list \<times> point list)" where
  "get_assignments lapjv self d =
     (case make_grid (size_x self) (size_y self) of
        Inl e \<Rightarrow> Inl e
      | Inr grid \<Rightarrow>
         (case lapjv (cdist grid d) of
            Inl e \<Rightarrow> Inl e
          | Inr (c, x, y) \<Rightarrow>
             (case map_err (py_index grid) y of
                Inl e \<Rightarrow> Inl e
              | Inr a \<Rightarrow> Inr (c, x, a))))"

subsection \<open>The materializer\<close>

text \<open>\<^verbatim>\<open>_grid_indices_to_image_list(self, images)\<close>: \<open>None\<close> for the index -1.\<close>

definition grid_indices_to_image_list :: "'a image_grid \<Rightarrow> 'a list \<Rightarrow> error + 'a option list" where
  "grid_indices_to_image_list self images =
     map_err (\<lambda>i. if i = - 1 then Inr None
                   else (case py_index images i of Inl e \<Rightarrow> Inl e | Inr v \<Rightarrow> Inr (Some v)))
       (grid_indices self)"

subsection \<open>process\<close>

text \<open>
  Lines 50 to 57 of \<^verbatim>\<open>process\<close>, once the grid size is stored: solve, store the three
  results, rescale the two columns of \<open>assignments\<close> in place, materialize. The result
  is the exception raised, if any, and the object as it is left.

  \<^verbatim>\<open>np.array([...])\<close> of no rows has shape \<open>(0,)\<close>, so that \<^verbatim>\<open>self.assignments.T[0]\<close>
  raises IndexError; of M > 0 rows it has shape \<open>(M, 2)\<close> and both columns exist.

  The two products are exact here, as the lattice coordinates are. Their float64 values
  are the subject of \<open>linspace_f64\<close> and \<open>rescale_f64\<close> below.
\<close>

definition solve_and_materialize :: "solver \<Rightarrow> 'a image_grid \<Rightarrow> error option \<times> 'a image_grid" where
  "solve_and_materialize lapjv self =
     (case get_assignments lapjv self (norm_data self) of
        Inl e \<Rightarrow> (Some e, self)
      | Inr (c, gi, a) \<Rightarrow>
         (let s1 = self\<lparr>cost := c, grid_indices := gi, assignments := a\<rparr> in
          if assignments s1 = [] then (Some IndexError, s1)
          else
            (let s2 = s1\<lparr>assignments := map (\<lambda>(x, y). (x * real_of_int (size_x s1), y)) (assignments s1)\<rparr>;
                 s3 = s2\<lparr>assignments := map (\<lambda>(x, y). (x, y * real_of_int (size_y s2))) (assignments s2)\<rparr>
             in (case grid_indices_to_image_list s3 (data s3) of
                   Inl e \<Rightarrow> (Some e, s3)
                 | Inr il \<Rightarrow> (None, s3\<lparr>image_list := il\<rparr>)))))"

text \<open>
  \<^verbatim>\<open>process(self, size_x=0, size_y=0)\<close>. \<^verbatim>\<open>if size_x and size_y\<close> tests both for
  being non-zero; the \<^verbatim>\<open>assert\<close> comes before the two sizes are stored.
\<close>

definition process ::
  "kurtosis_fn \<Rightarrow> solver \<Rightarrow> 'a image_grid \<Rightarrow> int \<Rightarrow> int \<Rightarrow> error option \<times> 'a image_grid" where
  "process kurtosis lapjv self sx sy =
     (if sx \<noteq> 0 \<and> sy \<noteq> 0 then
        (if sx * sy \<ge> int (length (data self))
         then solve_and_materialize lapjv (self\<lparr>size_x := sx, size_y := sy\<rparr>)
         else (Some AssertionError, self))
      else
        (case get_grid_size kurtosis (norm_data self) False of
           (gx, gy) \<Rightarrow> solve_and_materialize lapjv (self\<lparr>size_x := gx, size_y := gy\<rparr>)))"

subsection \<open>The lattice coordinate and its rescaling in float64\<close>

text \<open>
  float64 arithmetic rounds each result to the nearest number with a 53-bit
  significand, ties to the even one (values in the normal range; no overflow).
  \<open>binary_exponent fuel x\<close> is the \<open>e\<close> with \<open>2 ^ e \<le> x < 2 ^ (e + 1)\<close> for a
  positive \<open>x\<close>, found by doubling or halving at most \<open>fuel\<close> times.
\<close>

fun binary_exponent :: "nat \<Rightarrow> real \<Rightarrow> int" where
  "binary_exponent 0 x = 0"
| "binary_exponent (Suc fuel) x =
     (if x < 1 then binary_exponent fuel (x * 2) - 1
      else if 2 \<le> x then binary_exponent fuel (x / 2) + 1
      else 0)"

definition round_half_even :: "real \<Rightarrow> int" where
  "round_half_even x =
     (if x - of_int \<lfloor>x\<rfloor> < 1/2 then \<lfloor>x\<rfloor>
      else if 1/2 < x - of_int \<lfloor>x\<rfloor> then \<lfloor>x\<rfloor> + 1
      else if even \<lfloor>x\<rfloor> then \<lfloor>x\<rfloor> else \<lfloor>x\<rfloor> + 1)"

definition fl64 :: "real \<Rightarrow> real" where
  "fl64 x =
     (if x = 0 then 0
      else (let e = binary_exponent 1100 \<bar>x\<bar> - 52
            in of_int (round_half_even (x / 2 powi e)) * 2 powi e))"

text \<open>
  Element \<open>i\<close> of \<^verbatim>\<open>np.linspace(0, 1, num, endpoint=False)\<close>: NumPy computes the step
  \<open>1 / num\<close> and then \<open>i * step\<close>. \<^verbatim>\<open>self.assignments.T[0] *= self.size_x\<close> multiplies
  such a coordinate by the size.
\<close>

definition linspace_f64 :: "int \<Rightarrow> nat \<Rightarrow> real" where
  "linspace_f64 num i = fl64 (real i * fl64 (1 / real_of_int num))"

definition rescale_f64 :: "real \<Rightarrow> int \<Rightarrow> real" where
  "rescale_f64 v n = fl64 (v * real_of_int n)"

subsection \<open>Example inputs\<close>

text \<open>
  Two images whose normalised projections are \<open>(0, 0)\<close> and \<open>(1, 1/2)\<close>; no image; a
  single image.
\<close>

definition two_points :: "string image_grid" where
  "two_points = init (\<lambda>d. [(0, 0), (1, 1/2)]) [''a'', ''b'']"

definition no_points :: "string image_grid" where
  "no_points = init (\<lambda>d. []) []"

definition one_point :: "string image_grid" where
  "one_point = init (\<lambda>d. [(0, 0)]) [''a'']"

text \<open>
  Stand-ins for the two library functions on these inputs: the excess kurtosis of two
  distinct values is \<open>-2\<close> on each axis; the matching of the first example on the 2 by
  2 lattice (cells 0 and 3, cost \<open>1/4\<close>) and on the 6 by 6 lattice (cells 0 and 23, cost
  \<open>1/36\<close>); and the answer for no point at all (cost 0, every cell unmatched).
\<close>

definition kurtosis_two :: kurtosis_fn where
  "kurtosis_two d = (Finite (- 2), Finite (- 2))"

definition solver_2x2 :: solver where
  "solver_2x2 m = Inr (1/4, [0, - 1, - 1, 1], [0, 3])"

definition solver_6x6 :: solver where
  "solver_6x6 m = Inr (1/36, (0 # replicate 22 (- 1)) @ (1 # replicate 12 (- 1)), [0, 23])"

definition all_unmatched :: solver where
  "all_unmatched m = Inr (0, map (\<lambda>r. - 1) m, [])"

section \<open>Properties\<close>

subsection \<open>The minimal square\<close>

lemma sqr_size_eqI:
  assumes "(real_of_int s - 1)\<^sup>2 < real n \<or> (s = 0 \<and> n = 0)" "real n \<le> (real_of_int s)\<^sup>2" "0 \<le> s"
  shows "sqr_size n = s"
proof (cases "n = 0")
  case True
  with assms show ?thesis by (auto simp: sqr_size_def)
next
  case False
  with assms have lt: "(real_of_int s - 1)\<^sup>2 < real n" by auto
  have "real_of_int s - 1 < sqrt (real n)" using lt by (rule real_less_rsqrt)
  moreover have "sqrt (real n) \<le> real_of_int s"
    using assms(2,3) by (intro real_le_lsqrt) auto
  ultimately show ?thesis unfolding sqr_size_def by (rule ceiling_unique)
qed

lemma sqr_size_nonneg: "0 \<le> sqr_size n"
proof -
  have "0 \<le> sqrt (real n)" by simp
  then have "- 1 < sqrt (real n)" by linarith
  then show ?thesis by (simp add: sqr_size_def)
qed

lemma sqr_size_covers: "int n \<le> sqr_size n * sqr_size n"
proof -
  have "sqrt (real n) \<le> real_of_int (sqr_size n)"
    unfolding sqr_size_def by (rule le_of_int_ceiling)
  then have "(sqrt (real n))\<^sup>2 \<le> (real_of_int (sqr_size n))\<^sup>2"
    by (intro power_mono) auto
  then have "real n \<le> real_of_int (sqr_size n * sqr_size n)"
    by (simp add: power2_eq_square)
  then show ?thesis by linarith
qed

lemma sqr_size_pos: "0 < n \<Longrightarrow> 1 \<le> sqr_size n"
  unfolding sqr_size_def by (simp add: le_ceiling_iff)

lemma sqr_size_0: "sqr_size 0 = 0"
  by (simp add: sqr_size_def)

text \<open>An executable form of \<open>sqr_size\<close>: the number of \<open>s\<close> with \<open>s * s < n\<close>.\<close>

lemma takeWhile_upt_less: "takeWhile (\<lambda>s. s < k) [0..<n] = [0..<min k n]"
proof (induction n)
  case 0
  then show ?case by simp
next
  case (Suc n)
  show ?case
  proof (cases "n < k")
    case True
    then have "takeWhile (\<lambda>s. s < k) ([0..<n] @ [n]) = [0..<n] @ takeWhile (\<lambda>s. s < k) [n]"
      by (intro takeWhile_append2) auto
    moreover have "min k (Suc n) = Suc n" using True by simp
    ultimately show ?thesis using True by simp
  next
    case False
    then have "min k (Suc n) = min k n" by simp
    moreover have "takeWhile (\<lambda>s. s < k) ([0..<n] @ [n]) = takeWhile (\<lambda>s. s < k) [0..<n]"
      using False by (metis (mono_tags, lifting) append.right_neutral takeWhile.simps takeWhile_tail)
    ultimately show ?thesis using Suc by simp
  qed
qed

lemma sq_less_iff: "s * s < n \<longleftrightarrow> int s < sqr_size n" for s n :: nat
proof -
  have "int s < sqr_size n \<longleftrightarrow> real s < sqrt (real n)"
    by (simp add: sqr_size_def less_ceiling_iff)
  also have "\<dots> \<longleftrightarrow> (real s)\<^sup>2 < real n"
    by (metis of_nat_0_le_iff real_sqrt_abs real_sqrt_less_iff abs_of_nonneg)
  also have "\<dots> \<longleftrightarrow> s * s < n"
    by (metis of_nat_less_iff of_nat_mult power2_eq_square)
  finally show ?thesis by simp
qed

lemma sqr_size_le_self: "sqr_size n \<le> int n"
proof -
  have "real n \<le> (real n)\<^sup>2" by (cases n) (simp_all add: power2_eq_square)
  then have "sqrt (real n) \<le> real n" by (intro real_le_lsqrt) simp_all
  then show ?thesis by (simp add: sqr_size_def ceiling_le_iff)
qed

lemma sqr_size_code [code]:
  "sqr_size n = int (length (takeWhile (\<lambda>s. s * s < n) [0..<n]))"
proof -
  have "takeWhile (\<lambda>s. s * s < n) [0..<n] = takeWhile (\<lambda>s. s < nat (sqr_size n)) [0..<n]"
    by (rule takeWhile_cong) (auto simp: sq_less_iff)
  then show ?thesis
    using sqr_size_le_self [of n] sqr_size_nonneg [of n]
    by (simp add: takeWhile_upt_less)
qed


subsection \<open>The kurtosis bias\<close>

lemma trunc_abs_of_int: "trunc \<bar>real_of_int z\<bar> = \<bar>z\<bar>"
  by (simp add: trunc_def flip: of_int_abs)

lemma kurt_bias_Finite:
  "kurt_bias (Finite r) = (if \<bar>\<lceil>r * 2\<rceil>\<bar> < 2 ^ 31 then \<bar>\<lceil>r * 2\<rceil>\<bar> else - (2 ^ 31))"
proof -
  have "- (2 ^ 31) \<le> \<bar>\<lceil>r * 2\<rceil>\<bar>"
    by (rule order_trans [of _ 0]) simp_all
  then show ?thesis
    by (simp add: kurt_bias_def trunc_abs_of_int)
qed

lemma kurt_bias_NaN: "kurt_bias NaN = - (2 ^ 31)"
  by (simp add: kurt_bias_def)

lemma kurt_bias_defined: "bias_defined k \<Longrightarrow> 0 \<le> kurt_bias k"
  by (cases k) (simp_all add: kurt_bias_Finite)

lemma abs_ceiling_nonneg: "0 \<le> k \<Longrightarrow> \<bar>\<lceil>k * 2\<rceil>\<bar> = spec_bias k"
  for k :: real
  by (simp add: spec_bias_def)

lemma abs_ceiling_neg: "k < 0 \<Longrightarrow> \<bar>\<lceil>k * 2\<rceil>\<bar> = \<lfloor>\<bar>k\<bar> * 2\<rfloor>"
  for k :: real
proof -
  assume neg: "k < 0"
  have "\<lceil>k * 2\<rceil> = - \<lfloor>- (k * 2)\<rfloor>" by (simp add: ceiling_def)
  moreover have "0 \<le> \<lfloor>- (k * 2)\<rfloor>" using neg by simp
  moreover have "\<bar>k\<bar> * 2 = - (k * 2)" using neg by simp
  ultimately show ?thesis by simp
qed

subsection \<open>The grid sizer\<close>

lemma get_grid_size_square:
  "get_grid_size kurtosis d True = (sqr_size (length d), sqr_size (length d))"
  by (simp add: get_grid_size_def Let_def)

lemma get_grid_size_adaptive:
  "get_grid_size kurtosis d False =
     (sqr_size (length d) + kurt_bias (fst (kurtosis d)),
      sqr_size (length d) + kurt_bias (snd (kurtosis d)))"
  by (cases "kurtosis d") (simp add: get_grid_size_def Let_def)

lemma grow_covers:
  assumes "int n \<le> s * s" "0 \<le> s" "0 \<le> bx" "0 \<le> by"
  shows "int n \<le> (s + bx) * (s + by)"
proof -
  have "s * s \<le> (s + bx) * (s + by)"
    using assms(2-4) by (intro mult_mono) auto
  with assms(1) show ?thesis by linarith
qed

text \<open>
  C2, as amended. Whenever the minimal square is asked for, or both kurtosis values are
  finite with a bias that fits 32 bits, the size is a pair of integers, each at least
  \<open>ceil(sqrt M)\<close>, whose product is at least \<open>M\<close>; both are at least 1 when there is
  at least one point. For no points the minimal square is 0 by 0.
\<close>

theorem get_grid_size_bounds:
  assumes "use_default_square \<or> (bias_defined (fst (kurtosis d)) \<and> bias_defined (snd (kurtosis d)))"
  shows "\<exists>sx sy. get_grid_size kurtosis d use_default_square = (sx, sy)
           \<and> int (length d) \<le> sx * sy
           \<and> sqr_size (length d) \<le> sx \<and> sqr_size (length d) \<le> sy
           \<and> (0 < length d \<longrightarrow> 1 \<le> sx \<and> 1 \<le> sy)"
proof (cases use_default_square)
  case True
  then show ?thesis
    using sqr_size_covers [of "length d"] sqr_size_pos [of "length d"]
    by (simp add: get_grid_size_square)
next
  case False
  define bx where "bx = kurt_bias (fst (kurtosis d))"
  define "by" where "by = kurt_bias (snd (kurtosis d))"
  have b: "0 \<le> bx" "0 \<le> by"
    using False assms by (simp_all add: bx_def by_def kurt_bias_defined)
  have "int (length d) \<le> (sqr_size (length d) + bx) * (sqr_size (length d) + by)"
    using sqr_size_covers sqr_size_nonneg b by (rule grow_covers)
  moreover have "0 < length d \<longrightarrow> 1 \<le> sqr_size (length d) + bx \<and> 1 \<le> sqr_size (length d) + by"
    using sqr_size_pos [of "length d"] b by auto
  ultimately show ?thesis
    using False b by (simp add: get_grid_size_adaptive bx_def by_def)
qed

theorem get_grid_size_bounds_witness:
  "(False \<or> (bias_defined (fst ((\<lambda>d. (Finite (1/2), Finite (- 6/5))) [(0, 0), (1/4, 1), (1/2, 1/2), (1, 0), (3/4, 1/4)]))
       \<and> bias_defined (snd ((\<lambda>d. (Finite (1/2), Finite (- 6/5))) [(0, 0), (1/4, 1), (1/2, 1/2), (1, 0), (3/4, 1/4)]))))
   \<and> (\<exists>sx sy. get_grid_size (\<lambda>d. (Finite (1/2), Finite (- 6/5)))
                  [(0, 0), (1/4, 1), (1/2, 1/2), (1, 0), (3/4, 1/4)] False = (sx, sy)
         \<and> int (length [(0::real, 0::real), (1/4, 1), (1/2, 1/2), (1, 0), (3/4, 1/4)]) \<le> sx * sy
         \<and> 1 \<le> sx \<and> 1 \<le> sy)"
  using get_grid_size_bounds [of False "\<lambda>d. (Finite (1/2), Finite (- 6/5))"
      "[(0, 0), (1/4, 1), (1/2, 1/2), (1, 0), (3/4, 1/4)]"]
  by auto

text \<open>
  C2 fails as stated: for no points and \<^verbatim>\<open>use_default_square=True\<close> the sizer returns
  0 by 0, so neither dimension is at least 1.
\<close>

theorem get_grid_size_empty_counterexample:
  "get_grid_size (\<lambda>d. (Finite 0, Finite 0)) [] True = (0, 0)"
  by (simp add: get_grid_size_square sqr_size_0)

text \<open>
  C4, as amended. With shape adaptation enabled and finite kurtosis values \<open>kx\<close>,
  \<open>ky\<close>, the sizer adds to each axis the bias \<open>|ceil(2 k)|\<close> of that axis: the absolute
  value is taken after the ceiling. The bias is never negative; it is the
  specification's \<open>ceil(|k| * 2)\<close> when \<open>k \<ge> 0\<close> and \<open>floor(|k| * 2)\<close> when \<open>k < 0\<close>.
\<close>

theorem get_grid_size_bias:
  assumes "kurtosis d = (Finite kx, Finite ky)"
    and "\<bar>\<lceil>kx * 2\<rceil>\<bar> < 2 ^ 31" and "\<bar>\<lceil>ky * 2\<rceil>\<bar> < 2 ^ 31"
  shows "get_grid_size kurtosis d False =
           (sqr_size (length d) + \<bar>\<lceil>kx * 2\<rceil>\<bar>, sqr_size (length d) + \<bar>\<lceil>ky * 2\<rceil>\<bar>)
         \<and> \<bar>\<lceil>kx * 2\<rceil>\<bar> = (if 0 \<le> kx then spec_bias kx else \<lfloor>\<bar>kx\<bar> * 2\<rfloor>)
         \<and> \<bar>\<lceil>ky * 2\<rceil>\<bar> = (if 0 \<le> ky then spec_bias ky else \<lfloor>\<bar>ky\<bar> * 2\<rfloor>)"
proof -
  have "get_grid_size kurtosis d False =
          (sqr_size (length d) + \<bar>\<lceil>kx * 2\<rceil>\<bar>, sqr_size (length d) + \<bar>\<lceil>ky * 2\<rceil>\<bar>)"
    using assms by (simp add: get_grid_size_adaptive kurt_bias_Finite)
  moreover have "\<bar>\<lceil>k * 2\<rceil>\<bar> = (if 0 \<le> k then spec_bias k else \<lfloor>\<bar>k\<bar> * 2\<rfloor>)" for k :: real
  proof (cases "0 \<le> k")
    case True
    then show ?thesis by (simp only: if_True abs_ceiling_nonneg [OF True])
  next
    case False
    then have "k < 0" by simp
    with False show ?thesis by (simp only: if_False abs_ceiling_neg)
  qed
  ultimately show ?thesis by blast
qed

theorem get_grid_size_bias_witness:
  "(\<lambda>d. (Finite (- 34/25), Finite (3/4))) [(0, 0), (1/3, 1/3), (2/3, 2/3), (1, 1)]
     = (Finite (- 34/25), Finite (3/4))
   \<and> \<bar>\<lceil>(- 34/25 :: real) * 2\<rceil>\<bar> < 2 ^ 31 \<and> \<bar>\<lceil>(3/4 :: real) * 2\<rceil>\<bar> < 2 ^ 31
   \<and> 2 \<le> length [(0::real, 0::real), (1/3, 1/3), (2/3, 2/3), (1, 1)]
   \<and> get_grid_size (\<lambda>d. (Finite (- 34/25), Finite (3/4)))
        [(0, 0), (1/3, 1/3), (2/3, 2/3), (1, 1)] False = (4, 4)"
proof -
  have "sqr_size (length [(0::real, 0::real), (1/3, 1/3), (2/3, 2/3), (1, 1)]) = 2"
    by (rule sqr_size_eqI) simp_all
  then show ?thesis
    using get_grid_size_bias [of "\<lambda>d. (Finite (- 34/25), Finite (3/4))"
        "[(0, 0), (1/3, 1/3), (2/3, 2/3), (1, 1)]" "- 34/25" "3/4"]
    by simp
qed

text \<open>
  C4 fails as stated. Four equally spaced points have the excess kurtosis \<open>-1.36\<close> on
  each axis: the sizer adds \<open>|ceil(-2.72)| = 2\<close> to the base 2, where the bias of the
  specification, \<open>ceil(|-1.36| * 2) = 3\<close>, would give 5.
\<close>

theorem get_grid_size_bias_counterexample:
  "get_grid_size (\<lambda>d. (Finite (- 34/25), Finite (- 34/25)))
     [(0, 0), (1/3, 1/3), (2/3, 2/3), (1, 1)] False = (4, 4)
   \<and> sqr_size (length [(0::real, 0::real), (1/3, 1/3), (2/3, 2/3), (1, 1)]) + spec_bias (- 34/25) = 5"
proof -
  have "sqr_size (length [(0::real, 0::real), (1/3, 1/3), (2/3, 2/3), (1, 1)]) = 2"
    by (rule sqr_size_eqI) simp_all
  then show ?thesis
    by (simp add: get_grid_size_adaptive kurt_bias_Finite spec_bias_def)
qed

subsection \<open>The lattice\<close>

lemma meshgrid_points_product:
  "meshgrid_points xs ys = map (\<lambda>(y, x). (x, y)) (List.product ys xs)"
  by (induction ys) (simp_all add: meshgrid_points_def comp_def)

lemma length_meshgrid_points: "length (meshgrid_points xs ys) = length xs * length ys"
  by (simp add: meshgrid_points_product mult.commute)

lemma meshgrid_points_nth:
  assumes "n < length xs * length ys"
  shows "meshgrid_points xs ys ! n = (xs ! (n mod length xs), ys ! (n div length xs))"
proof -
  have "n < length ys * length xs" using assms by (simp add: mult.commute)
  then show ?thesis
    by (simp add: meshgrid_points_product product_nth)
qed

lemma make_grid_nonneg:
  assumes "0 \<le> sx" "0 \<le> sy"
  shows "make_grid sx sy =
     Inr (meshgrid_points (map (\<lambda>i. real i / real_of_int sx) [0..<nat sx])
                          (map (\<lambda>i. real i / real_of_int sy) [0..<nat sy]))"
  using assms by (simp add: make_grid_def linspace_def)

lemma make_grid_Inr_nonneg: "make_grid sx sy = Inr g \<Longrightarrow> 0 \<le> sx \<and> 0 \<le> sy"
  by (auto simp: make_grid_def linspace_def split: if_splits sum.splits)

lemma make_grid_length:
  assumes "make_grid sx sy = Inr g"
  shows "length g = nat sx * nat sy"
  using assms make_grid_Inr_nonneg [OF assms]
  by (auto simp: make_grid_nonneg length_meshgrid_points)

lemma make_grid_nth:
  assumes "make_grid sx sy = Inr g" "k < length g"
  shows "g ! k = (real (k mod nat sx) / real_of_int sx, real (k div nat sx) / real_of_int sy)"
proof -
  note nn = make_grid_Inr_nonneg [OF assms(1)]
  have len: "k < nat sx * nat sy" using assms make_grid_length by metis
  then have "0 < nat sx" by (cases "nat sx = 0") auto
  then have m: "k mod nat sx < nat sx" by simp
  have d: "k div nat sx < nat sy" using len by (simp add: less_mult_imp_div_less mult.commute)
  have "g = meshgrid_points (map (\<lambda>i. real i / real_of_int sx) [0..<nat sx])
                          (map (\<lambda>i. real i / real_of_int sy) [0..<nat sy])"
    using assms(1) nn by (simp add: make_grid_nonneg)
  then show ?thesis using len m d
    by (simp add: meshgrid_points_nth)
qed

text \<open>
  C5. For a grid size \<open>(size_x, size_y)\<close> (two non-negative integers) the solver's
  lattice has \<open>size_x * size_y\<close> cells, and the cell with the linear index
  \<open>row * size_x + col\<close> has the coordinate \<open>(col / size_x, row / size_y)\<close>, for every
  \<open>col\<close> in \<open>[0, size_x)\<close> and \<open>row\<close> in \<open>[0, size_y)\<close>; it is the lattice whose
  distances to the data are handed to \<^verbatim>\<open>lapjv\<close> and whose cells are the reported
  assignments. (Coordinates are real numbers here; a negative size raises ValueError.)
\<close>

theorem make_grid_row_major:
  assumes "0 \<le> sx" "0 \<le> sy"
  shows "\<exists>grid. make_grid sx sy = Inr grid \<and> length grid = nat (sx * sy) \<and>
           (\<forall>row col. row < nat sy \<and> col < nat sx \<longrightarrow>
              grid ! (row * nat sx + col) = (real col / real_of_int sx, real row / real_of_int sy)) \<and>
           get_assignments lapjv (self\<lparr>size_x := sx, size_y := sy\<rparr>) d =
             (case lapjv (cdist grid d) of
                Inl e \<Rightarrow> Inl e
              | Inr (c, x, y) \<Rightarrow>
                 (case map_err (py_index grid) y of Inl e \<Rightarrow> Inl e | Inr a \<Rightarrow> Inr (c, x, a)))"
proof -
  obtain grid where g: "make_grid sx sy = Inr grid"
    using assms by (simp add: make_grid_nonneg)
  have len: "length grid = nat sx * nat sy" using g by (rule make_grid_length)
  have "grid ! (row * nat sx + col) = (real col / real_of_int sx, real row / real_of_int sy)"
    if "row < nat sy" "col < nat sx" for row col
  proof -
    have "row * nat sx + col < Suc row * nat sx" using that(2) by simp
    also have "\<dots> \<le> nat sy * nat sx" using that(1) by (intro mult_le_mono1) simp
    finally have "row * nat sx + col < length grid" by (simp add: len mult.commute)
    then show ?thesis using that(2) by (simp add: make_grid_nth [OF g])
  qed
  moreover have "get_assignments lapjv (self\<lparr>size_x := sx, size_y := sy\<rparr>) d =
      (case lapjv (cdist grid d) of
         Inl e \<Rightarrow> Inl e
       | Inr (c, x, y) \<Rightarrow>
          (case map_err (py_index grid) y of Inl e \<Rightarrow> Inl e | Inr a \<Rightarrow> Inr (c, x, a)))"
    by (simp add: get_assignments_def g)
  ultimately show ?thesis using g len assms by (auto simp: nat_mult_distrib)
qed

theorem make_grid_row_major_witness:
  "(0::int) \<le> 3 \<and> (0::int) \<le> 2 \<and>
   (\<exists>grid. make_grid 3 2 = Inr grid \<and> length grid = 6 \<and> grid ! (1 * 3 + 2) = (2 / 3, 1 / 2))"
proof -
  from make_grid_row_major [of 3 2 solver_2x2 two_points "norm_data two_points"] obtain grid where
    g: "make_grid 3 2 = Inr grid" "length grid = nat (3 * 2)"
    and n: "\<forall>row col. row < nat 2 \<and> col < nat 3 \<longrightarrow>
              grid ! (row * nat 3 + col) = (real col / real_of_int 3, real row / real_of_int 2)"
    by auto
  from n have "grid ! (1 * nat 3 + 2) = (real 2 / real_of_int 3, real 1 / real_of_int 2)"
    by (intro n [rule_format]) simp
  with g show ?thesis by simp
qed


subsection \<open>The orchestrator\<close>

text \<open>
  C3. When \<^verbatim>\<open>process\<close> is called with positive sizes whose product is below the
  number of data items, the assertion fails before anything is stored: the call ends
  with AssertionError and the object is exactly as it was.
\<close>

theorem process_precondition_violation:
  assumes "0 < sx" "0 < sy" "sx * sy < int (length (data self))"
  shows "process kurtosis lapjv self sx sy = (Some AssertionError, self)"
  using assms by (simp add: process_def)

theorem process_precondition_violation_witness:
  "(0::int) < 1 \<and> (0::int) < 1 \<and> (1::int) * 1 < int (length (data two_points))
   \<and> process kurtosis_two solver_2x2 two_points 1 1 = (Some AssertionError, two_points)"
  using process_precondition_violation [of 1 1 two_points kurtosis_two solver_2x2]
  by (simp add: two_points_def init_def)

text \<open>
  C10. When at least one of the two size arguments is 0, both are ignored: the result is
  that of the call with the defaults \<open>(0, 0)\<close>, namely the grid sizer's size (with
  shape adaptation) followed by the solving phase; the product of the arguments is never
  compared with the number of data items.
\<close>

theorem process_zero_size_ignored:
  assumes "sx = 0 \<or> sy = 0"
  shows "process kurtosis lapjv self sx sy = process kurtosis lapjv self 0 0
       \<and> process kurtosis lapjv self sx sy =
          (case get_grid_size kurtosis (norm_data self) False of
             (gx, gy) \<Rightarrow> solve_and_materialize lapjv (self\<lparr>size_x := gx, size_y := gy\<rparr>))"
  using assms by (auto simp: process_def)

theorem process_zero_size_ignored_witness:
  "((1::int) = 0 \<or> (0::int) = 0)
   \<and> (1::int) * 0 < int (length (data two_points))
   \<and> process kurtosis_two solver_6x6 two_points 1 0 = process kurtosis_two solver_6x6 two_points 0 0
   \<and> fst (process kurtosis_two solver_6x6 two_points 1 0) = None
   \<and> size_x (snd (process kurtosis_two solver_6x6 two_points 1 0)) = 6
   \<and> size_y (snd (process kurtosis_two solver_6x6 two_points 1 0)) = 6
   \<and> assignments (snd (process kurtosis_two solver_6x6 two_points 1 0)) = [(0, 0), (5, 3)]"
proof -
  have "fst (process kurtosis_two solver_6x6 two_points 1 0) = None
      \<and> size_x (snd (process kurtosis_two solver_6x6 two_points 1 0)) = 6
      \<and> size_y (snd (process kurtosis_two solver_6x6 two_points 1 0)) = 6
      \<and> assignments (snd (process kurtosis_two solver_6x6 two_points 1 0)) = [(0, 0), (5, 3)]"
    by code_simp
  moreover have "(1::int) * 0 < int (length (data two_points))"
    by (simp add: two_points_def init_def)
  ultimately show ?thesis
    using process_zero_size_ignored [of 1 0 kurtosis_two solver_6x6 two_points]
    by simp
qed

lemma solve_and_materialize_empty:
  assumes "norm_data self = []"
    and "\<And>grid c x y. lapjv (cdist grid []) = Inr (c, x, y) \<Longrightarrow> y = []"
  shows "fst (solve_and_materialize lapjv self) \<noteq> None
       \<and> image_list (snd (solve_and_materialize lapjv self)) = image_list self"
  using assms(1)
  by (auto simp: solve_and_materialize_def get_assignments_def Let_def
      split: sum.splits prod.splits dest!: assms(2))

text \<open>
  C7, as amended. For zero data points \<^verbatim>\<open>process\<close> never succeeds. Whatever the size
  arguments, and whatever sizes are stored, if the solver returns (with no entry in its
  per-point array, there being no point) the code stores the cost and the per-cell
  indices and then fails with IndexError when it rescales the first column of the empty
  \<open>assignments\<close> array; if an earlier step fails, that error ends the call. In every
  case \<open>image_list\<close> is not produced. There is no fallback for an empty input.
\<close>

theorem process_empty_input_fails:
  assumes "norm_data self = []"
    and "\<And>grid c x y. lapjv (cdist grid []) = Inr (c, x, y) \<Longrightarrow> y = []"
  shows "fst (process kurtosis lapjv self sx sy) \<noteq> None
       \<and> image_list (snd (process kurtosis lapjv self sx sy)) = image_list self"
proof -
  have "fst (solve_and_materialize lapjv (self\<lparr>size_x := a, size_y := b\<rparr>)) \<noteq> None
      \<and> image_list (snd (solve_and_materialize lapjv (self\<lparr>size_x := a, size_y := b\<rparr>))) = image_list self"
    for a b
    using solve_and_materialize_empty [of "self\<lparr>size_x := a, size_y := b\<rparr>" lapjv] assms by simp
  then show ?thesis
    by (auto simp: process_def split: prod.splits)
qed

theorem process_empty_input_fails_witness:
  "norm_data no_points = []
   \<and> fst (process kurtosis_two all_unmatched no_points 2 2) \<noteq> None
   \<and> image_list (snd (process kurtosis_two all_unmatched no_points 2 2)) = image_list no_points"
  using process_empty_input_fails [of no_points all_unmatched kurtosis_two 2 2]
  by (simp add: no_points_def init_def all_unmatched_def)

text \<open>
  C7 fails as stated. With no data point and a solver that answers as the claim wants
  (cost 0, every cell unmatched), a call with the explicit size 2 by 2 ends with
  IndexError after the cost and the four cell indices are stored. A call with the
  default sizes fails earlier: the kurtosis of no point is NaN, the sizes stored are
  negative and the lattice cannot be built.
\<close>

theorem process_empty_input_counterexample:
  "process kurtosis_two all_unmatched no_points 2 2
     = (Some IndexError,
        no_points\<lparr>size_x := 2, size_y := 2, cost := 0, grid_indices := [- 1, - 1, - 1, - 1],
                   assignments := []\<rparr>)
   \<and> process (\<lambda>d. (NaN, NaN)) all_unmatched no_points 0 0
     = (Some ValueError, no_points\<lparr>size_x := - 2147483648, size_y := - 2147483648\<rparr>)"
  by (simp add: process_def no_points_def init_def all_unmatched_def solve_and_materialize_def
      get_assignments_def make_grid_def linspace_def meshgrid_points_def upt_rec cdist_def
      get_grid_size_adaptive kurt_bias_NaN sqr_size_0 Let_def)

lemma solve_and_materialize_sizes:
  "size_x (snd (solve_and_materialize lapjv self)) = size_x self
   \<and> size_y (snd (solve_and_materialize lapjv self)) = size_y self"
  by (auto simp: solve_and_materialize_def Let_def split: sum.splits prod.splits)

text \<open>
  C9, as amended. The option belongs to the grid sizer only: called with
  \<^verbatim>\<open>use_default_square=True\<close> it does not consult the kurtosis and returns the minimal
  square \<open>(ceil(sqrt M), ceil(sqrt M))\<close>. \<^verbatim>\<open>process\<close> has no such option: the size
  it stores is the caller's pair of non-zero sizes (when their product covers the data;
  otherwise nothing is stored), or else the sizer's result with
  \<^verbatim>\<open>use_default_square=False\<close>.
\<close>

theorem use_default_square_sizer_only:
  "get_grid_size kurtosis d True = (\<lceil>sqrt (real (length d))\<rceil>, \<lceil>sqrt (real (length d))\<rceil>)
   \<and> (size_x (snd (process kurtosis lapjv self sx sy)), size_y (snd (process kurtosis lapjv self sx sy)))
       = (if sx \<noteq> 0 \<and> sy \<noteq> 0
          then (if int (length (data self)) \<le> sx * sy then (sx, sy) else (size_x self, size_y self))
          else get_grid_size kurtosis (norm_data self) False)"
proof -
  have "get_grid_size kurtosis d True = (\<lceil>sqrt (real (length d))\<rceil>, \<lceil>sqrt (real (length d))\<rceil>)"
    by (simp add: get_grid_size_def sqr_size_def Let_def)
  moreover have "(size_x (snd (process kurtosis lapjv self sx sy)),
                  size_y (snd (process kurtosis lapjv self sx sy)))
       = (if sx \<noteq> 0 \<and> sy \<noteq> 0
          then (if int (length (data self)) \<le> sx * sy then (sx, sy) else (size_x self, size_y self))
          else get_grid_size kurtosis (norm_data self) False)"
    by (cases "get_grid_size kurtosis (norm_data self) False")
      (simp add: process_def solve_and_materialize_sizes)
  ultimately show ?thesis by simp
qed

theorem use_default_square_sizer_only_witness:
  "get_grid_size kurtosis_two (norm_data two_points) True = (2, 2)
   \<and> (size_x (snd (process kurtosis_two solver_2x2 two_points 2 2)),
       size_y (snd (process kurtosis_two solver_2x2 two_points 2 2))) = (2, 2)
   \<and> (size_x (snd (process kurtosis_two solver_2x2 two_points 1 1)),
       size_y (snd (process kurtosis_two solver_2x2 two_points 1 1))) = (0, 0)"
proof -
  have s: "sqr_size (length (norm_data two_points)) = 2"
    by (simp add: two_points_def init_def) (rule sqr_size_eqI, simp_all)
  show ?thesis
    using use_default_square_sizer_only [of kurtosis_two "norm_data two_points" solver_2x2 two_points 2 2]
      use_default_square_sizer_only [of kurtosis_two "norm_data two_points" solver_2x2 two_points 1 1]
      s
    by (simp add: sqr_size_def two_points_def init_def)
qed

text \<open>
  C9 fails as stated. \<^verbatim>\<open>process\<close> takes the two sizes and nothing else, so the
  pipeline cannot be told to use the minimal square: for two images the size it computes
  is 6 by 6 (the kurtosis bias 4 on each axis), where the minimal square is 2 by 2.
\<close>

theorem process_default_square_counterexample:
  "get_grid_size kurtosis_two (norm_data two_points) True = (2, 2)
   \<and> size_x (snd (process kurtosis_two solver_6x6 two_points 0 0)) = 6
   \<and> size_y (snd (process kurtosis_two solver_6x6 two_points 0 0)) = 6"
  by code_simp

text \<open>
  C8 (the code departs from the claim). For a single point the sizer has no fallback:
  it calls the kurtosis, which is NaN for one point, converts NaN to the integer
  \<open>- 2 ^ 31\<close> and returns the size \<open>1 - 2 ^ 31\<close> for both axes instead of the minimal
  square 1 by 1. \<^verbatim>\<open>process\<close> stores the negative sizes and ends with the ValueError
  of \<^verbatim>\<open>np.linspace\<close>.
\<close>

theorem get_grid_size_single_point:
  "get_grid_size (\<lambda>d. (NaN, NaN)) [(0, 0)] False = (- 2147483647, - 2147483647)
   \<and> process (\<lambda>d. (NaN, NaN)) solver_2x2 one_point 0 0
       = (Some ValueError, one_point\<lparr>size_x := - 2147483647, size_y := - 2147483647\<rparr>)"
  by code_simp

subsection \<open>The reported coordinates in float64\<close>

text \<open>
  C6 (the code departs from the claim). The comment in \<^verbatim>\<open>process\<close> says that the
  multiplication by the size gives the indices of the cell, but in float64 the product
  is not always a whole number. For column 5 of a lattice of width 7 the coordinate is
  \<open>5 * (1/7)\<close> rounded, and its product with 7 is \<open>5 - 2^-50\<close>
  (4.999999999999999): read as an integer index it is column 4, whose slot of the
  materialized list does not hold the payload of the point.
\<close>

theorem rescaled_column_not_integer:
  "fl64 (1 / 7) = 2573485501354569 / 2 ^ 54
   \<and> linspace_f64 7 5 = 3216856876693211 / 2 ^ 52
   \<and> rescale_f64 (linspace_f64 7 5) 7 = 5 - 1 / 2 ^ 50
   \<and> trunc (rescale_f64 (linspace_f64 7 5) 7) = 4"
  by code_simp

end
